theory Spec2Isabelle
  imports Main "HOL-Library.Word" "HOL-Library.Sublist"
begin

text \<open>
  A model of \<open>lib/convert.js\<close>, the converter of imagemagick-convert: the option map,
  the builder of the command line and the two operations that run the command. The
  source holds the module in two variants; the model follows the first one, which has
  the option \<open>path\<close> and the attribute \<open>strip\<close>. The second variant differs in these two
  only: it always spawns \<open>rootCmd\<close> and has no \<open>strip\<close>; it names \<open>getHandle\<close> and
  \<open>getArgs\<close> as \<open>createOccurrence\<close> and \<open>composeCommand\<close>.
\<close>

section \<open>JavaScript values held by the option map\<close>

text \<open>
  The converter keeps its options in a \<open>Map\<close> from option names to arbitrary values.
  The values modelled here are \<open>undefined\<close>, \<open>null\<close>, booleans, integer-valued numbers,
  strings and \<open>Buffer\<close>s. Non-integer numbers are outside the model.
\<close>

datatype jsval =
    JUndefined
  | JNull
  | JBool bool
  | JNum int
  | JStr string
  | JBuffer "8 word list"

text \<open>Truthiness, as tested by \<open>if (v)\<close>, \<open>!v\<close> and \<open>v || d\<close>.\<close>

fun truthy :: "jsval \<Rightarrow> bool" where
  "truthy JUndefined = False"
| "truthy JNull = False"
| "truthy (JBool b) = b"
| "truthy (JNum n) = (n \<noteq> 0)"
| "truthy (JStr s) = (s \<noteq> [])"
| "truthy (JBuffer bs) = True"

text \<open>\<open>v === 0\<close>\<close>

fun is_zero :: "jsval \<Rightarrow> bool" where
  "is_zero (JNum n) = (n = 0)"
| "is_zero _ = False"

text \<open>\<open>typeof v === 'boolean'\<close>\<close>

fun is_boolean :: "jsval \<Rightarrow> bool" where
  "is_boolean (JBool b) = True"
| "is_boolean _ = False"

text \<open>\<open>v instanceof Buffer\<close>\<close>

fun is_buffer :: "jsval \<Rightarrow> bool" where
  "is_buffer (JBuffer bs) = True"
| "is_buffer _ = False"

text \<open>\<open>a || b\<close>\<close>

definition js_or :: "jsval \<Rightarrow> jsval \<Rightarrow> jsval" where
  "js_or a b = (if truthy a then a else b)"

subsection \<open>String conversion\<close>

definition digit_char :: "nat \<Rightarrow> char" where
  "digit_char d = ''0123456789'' ! d"

fun string_of_nat :: "nat \<Rightarrow> string" where
  "string_of_nat n =
     (if n < 10 then [digit_char n]
      else string_of_nat (n div 10) @ [digit_char (n mod 10)])"

declare string_of_nat.simps [simp del]

definition string_of_int :: "int \<Rightarrow> string" where
  "string_of_int i =
     (if i < 0 then CHR ''-'' # string_of_nat (nat (- i)) else string_of_nat (nat i))"

text \<open>
  The string form of a value, as produced by a template literal \<open>`${v}`\<close>. A number
  prints as its decimal numeral. A \<open>Buffer\<close> prints as its decoded content; strings of
  the model are byte strings, so the content is taken bytewise.
\<close>

fun to_string :: "jsval \<Rightarrow> string" where
  "to_string JUndefined = ''undefined''"
| "to_string JNull = ''null''"
| "to_string (JBool b) = (if b then ''true'' else ''false'')"
| "to_string (JNum n) = string_of_int n"
| "to_string (JStr s) = s"
| "to_string (JBuffer bs) = map (\<lambda>b. char_of (unat b)) bs"

text \<open>
  \<open>Array.prototype.join\<close>: the elements' string forms, separated by \<open>sep\<close>; an element
  that is \<open>null\<close> or \<open>undefined\<close> contributes the empty string.
\<close>

fun join_elem :: "jsval \<Rightarrow> string" where
  "join_elem JUndefined = []"
| "join_elem JNull = []"
| "join_elem v = to_string v"

fun join :: "string \<Rightarrow> jsval list \<Rightarrow> string" where
  "join sep [] = []"
| "join sep [v] = join_elem v"
| "join sep (v # w # vs) = join_elem v @ sep @ join sep (w # vs)"

text \<open>\<open>name.replace(/\d*$/, '')\<close>: the name without its trailing run of decimal digits.\<close>

definition is_digit :: "char \<Rightarrow> bool" where
  "is_digit c = (let n = (of_char c :: nat) in 48 \<le> n \<and> n \<le> 57)"

definition strip_trailing_digits :: "string \<Rightarrow> string" where
  "strip_trailing_digits s = rev (dropWhile is_digit (rev s))"

section \<open>Configuration model\<close>

type_synonym options = "string \<rightharpoonup> jsval"

text \<open>\<open>this.options.get(k)\<close>: \<open>undefined\<close> for a key the map does not hold.\<close>

definition get :: "options \<Rightarrow> string \<Rightarrow> jsval" where
  "get opts k = (case opts k of None \<Rightarrow> JUndefined | Some v \<Rightarrow> v)"

definition rootCmd :: "string \<Rightarrow> string" where
  "rootCmd platform = (if platform = ''win32'' then ''magick'' else ''convert'')"

definition RESIZE_DEFAULT :: string where
  "RESIZE_DEFAULT = ''crop''"

definition optionsDefaults_entries :: "string \<Rightarrow> (string \<times> jsval) list" where
  "optionsDefaults_entries platform =
     [(''path'', JStr (rootCmd platform)),
      (''srcData'', JNull),
      (''srcFormat'', JNull),
      (''width'', JNull),
      (''height'', JNull),
      (''resize'', JStr RESIZE_DEFAULT),
      (''density'', JNum 600),
      (''background'', JStr ''none''),
      (''gravity'', JStr ''Center''),
      (''format'', JNull),
      (''quality'', JNum 75),
      (''blur'', JNull),
      (''rotate'', JNull),
      (''flip'', JBool False),
      (''alpha'', JNull),
      (''clip'', JNull),
      (''alpha2'', JNull),
      (''strip'', JBool True)]"

definition optionsDefaults :: "string \<Rightarrow> options" where
  "optionsDefaults platform = map_of (optionsDefaults_entries platform)"

text \<open>The attribute set, in its iteration (insertion) order.\<close>

definition attributesMap :: "string list" where
  "attributesMap =
     [''density'', ''background'', ''gravity'', ''quality'', ''blur'', ''rotate'',
      ''flip'', ''alpha'', ''clip'', ''alpha2'', ''strip'']"

text \<open>
  The constructor: \<open>{...optionsDefaults, ...options}\<close>. Every own key of the caller's
  record replaces the default, whatever its value.
\<close>

definition Converter :: "string \<Rightarrow> options \<Rightarrow> options" where
  "Converter platform caller = optionsDefaults platform ++ caller"

section \<open>Command builder\<close>

text \<open>A default parameter value \<open>(p = d)\<close>: it replaces \<open>undefined\<close> only.\<close>

definition default_param :: "jsval \<Rightarrow> jsval \<Rightarrow> jsval" where
  "default_param v d = (if v = JUndefined then d else v)"

text \<open>\<open>getHandle (format = null, name = null)\<close>\<close>

definition getHandle :: "jsval \<Rightarrow> jsval \<Rightarrow> string" where
  "getHandle format name =
     (let format = default_param format JNull;
          name = default_param name JNull;
          occurrence = [];
          occurrence = (if truthy format then occurrence @ [format] else occurrence);
          occurrence = occurrence @ [js_or name (JStr ''-'')]
      in join '':'' occurrence)"

definition geometryFactory :: "options \<Rightarrow> string" where
  "geometryFactory opts =
     (let size = [];
          w = get opts ''width'';
          h = get opts ''height'';
          size = size @ [if truthy w \<or> is_zero w then w else JStr []];
          size = (if truthy h \<or> is_zero h then size @ [h] else size)
      in join ''x'' size)"

text \<open>\<open>resizeMap.get(k)\<close>: only a string can equal one of the map's keys.\<close>

definition resizeMap_get :: "(string \<times> string) list \<Rightarrow> jsval \<Rightarrow> string option" where
  "resizeMap_get m k = (case k of JStr s \<Rightarrow> map_of m s | _ \<Rightarrow> None)"

text \<open>
  \<open>a || b\<close> on the results of two map lookups, where \<open>None\<close> is \<open>undefined\<close>. Both
  \<open>undefined\<close> and the empty string are falsy, and the caller tests the result for
  truthiness only, so a missing second value is rendered as the empty string.
\<close>

definition or_lookup :: "string option \<Rightarrow> string option \<Rightarrow> string" where
  "or_lookup a b =
     (case a of
        Some s \<Rightarrow> (if s \<noteq> [] then s else (case b of Some t \<Rightarrow> t | None \<Rightarrow> []))
      | None \<Rightarrow> (case b of Some t \<Rightarrow> t | None \<Rightarrow> []))"

definition resizeFactory :: "options \<Rightarrow> string" where
  "resizeFactory opts =
     (let resize = get opts ''resize'';
          geometry = geometryFactory opts;
          resizeMap =
            [(''fit'', ''-resize '' @ geometry),
             (''fill'', ''-resize '' @ geometry @ ''!''),
             (''crop'', ''-resize '' @ geometry @ ''^ -crop '' @ geometry @ ''+0+0!'')]
      in if \<not> truthy resize \<or> geometry = [] then []
         else or_lookup (resizeMap_get resizeMap resize)
                        (resizeMap_get resizeMap (JStr RESIZE_DEFAULT)))"

text \<open>The body of the loop over the attribute set.\<close>

definition push_attribute :: "options \<Rightarrow> string list \<Rightarrow> string \<Rightarrow> string list" where
  "push_attribute opts args attribute =
     (let v = get opts attribute
      in if truthy v \<or> is_zero v
         then (let args = args @ [''-'' @ strip_trailing_digits attribute]
               in if \<not> is_boolean v then args @ [to_string v] else args)
         else args)"

text \<open>The tokens that the loop pushes, taken alone: the loop run on an empty list.\<close>

definition attributeFlagTokens :: "options \<Rightarrow> string list" where
  "attributeFlagTokens opts = foldl (push_attribute opts) [] attributesMap"

definition getArgs :: "options \<Rightarrow> string \<Rightarrow> string \<Rightarrow> string list" where
  "getArgs opts origin result =
     (let args = [];
          resize = resizeFactory opts;
          args = args @ [origin];
          args = foldl (push_attribute opts) args attributesMap;
          args = (if resize \<noteq> [] then args @ [resize] else args);
          args = args @ [result]
      in args)"

text \<open>
  The token list that \<open>proceed\<close> and \<open>pipe\<close> hand to \<open>spawn\<close>: both compute the two
  handles from \<open>srcFormat\<close> and \<open>format\<close>, passing no name, and call \<open>getArgs\<close>.
\<close>

definition command :: "options \<Rightarrow> string list" where
  "command opts =
     (let origin = getHandle (get opts ''srcFormat'') JUndefined;
          result = getHandle (get opts ''format'') JUndefined
      in getArgs opts origin result)"

text \<open>The option names that the command builder reads.\<close>

definition builder_keys :: "string list" where
  "builder_keys = [''srcFormat'', ''format'', ''width'', ''height'', ''resize''] @ attributesMap"

section \<open>Conversion orchestrator\<close>

text \<open>
  The host process, as far as a conversion touches it: the log of the calls made to
  \<open>spawn\<close> (executable and token list) and the listeners registered with
  \<open>process.on('exit', ...)\<close>. Every such listener is \<open>() => cp.kill()\<close> for one child
  process \<open>cp\<close>, so a listener is recorded as the child it kills; a child is named by
  the position of its call in the log.
\<close>

record host =
  spawn_calls :: "(jsval \<times> string list) list"
  exit_hooks :: "nat list"

text \<open>
  \<open>spawn\<close> is an external facility. Whether a call throws synchronously is decided
  by the parameter \<open>os\<close> (\<open>Some e\<close>: it throws \<open>e\<close>); otherwise it yields a child.
\<close>

definition spawn ::
  "(jsval \<Rightarrow> string list \<Rightarrow> string option) \<Rightarrow> jsval \<Rightarrow> string list \<Rightarrow> host
     \<Rightarrow> (string + nat) \<times> host" where
  "spawn os path args h =
     (let h' = h\<lparr>spawn_calls := spawn_calls h @ [(path, args)]\<rparr>
      in case os path args of
           Some e \<Rightarrow> (Inl e, h')
         | None \<Rightarrow> (Inr (length (spawn_calls h)), h'))"

text \<open>The values a conversion is rejected with, tagged by the place that rejects.\<close>

datatype failure =
    InvalidInput string
  | Caught string
  | ProcessFailure string
  | Diagnostic string
  | SinkFailure string

datatype success = Buffered "8 word list" | Finished

text \<open>
  One conversion in flight: its child, the bytes written to the child's input before
  closing it, the chunks stored so far, the destination streams of a fan-out, and the
  state of its promise (\<open>None\<close>: pending).
\<close>

record run =
  child :: nat
  stdin_written :: "8 word list"
  store :: "8 word list list"
  sinks :: "nat list"
  settlement :: "(failure + success) option"

text \<open>The state of a conversion when the call returns.\<close>

datatype started = Rejected failure | Running run

definition srcData_message :: string where
  "srcData_message =
     ''imagemagick-convert: the field `srcData` is required and should have `Buffer` type''"

definition buffer_bytes :: "jsval \<Rightarrow> 8 word list" where
  "buffer_bytes v = (case v of JBuffer bs \<Rightarrow> bs | _ \<Rightarrow> [])"

definition proceed ::
  "(jsval \<Rightarrow> string list \<Rightarrow> string option) \<Rightarrow> options \<Rightarrow> host \<Rightarrow> started \<times> host" where
  "proceed os opts h =
     (let source = get opts ''srcData''
      in if truthy source \<and> is_buffer source
         then (let origin = getHandle (get opts ''srcFormat'') JUndefined;
                   result = getHandle (get opts ''format'') JUndefined;
                   args = getArgs opts origin result
               in case spawn os (get opts ''path'') args h of
                    (Inl e, h1) \<Rightarrow> (Rejected (Caught e), h1)
                  | (Inr cp, h1) \<Rightarrow>
                      (Running \<lparr>child = cp, stdin_written = buffer_bytes source, store = [],
                                sinks = [], settlement = None\<rparr>,
                       h1\<lparr>exit_hooks := exit_hooks h1 @ [cp]\<rparr>))
         else (Rejected (InvalidInput srcData_message), h))"

text \<open>The argument of \<open>pipe\<close>: one stream or an array of streams.\<close>

datatype streams = One nat | Many "nat list"

definition pipe ::
  "(jsval \<Rightarrow> string list \<Rightarrow> string option) \<Rightarrow> options \<Rightarrow> streams \<Rightarrow> host
     \<Rightarrow> started \<times> host" where
  "pipe os opts streams h =
     (let streamList = (case streams of Many ss \<Rightarrow> ss | One s \<Rightarrow> [s]);
          source = get opts ''srcData''
      in if \<not> (truthy source \<and> is_buffer source)
         then (Rejected (InvalidInput srcData_message), h)
         else (let origin = getHandle (get opts ''srcFormat'') JUndefined;
                   result = getHandle (get opts ''format'') JUndefined;
                   args = getArgs opts origin result
               in case spawn os (get opts ''path'') args h of
                    (Inl e, h1) \<Rightarrow> (Rejected (Caught e), h1)
                  | (Inr cp, h1) \<Rightarrow>
                      (Running \<lparr>child = cp, stdin_written = buffer_bytes source, store = [],
                                sinks = streamList, settlement = None\<rparr>,
                       h1\<lparr>exit_hooks := exit_hooks h1 @ [cp]\<rparr>)))"

definition convert ::
  "(jsval \<Rightarrow> string list \<Rightarrow> string option) \<Rightarrow> string \<Rightarrow> options \<Rightarrow> host \<Rightarrow> started \<times> host" where
  "convert os platform options h = proceed os (Converter platform options) h"

subsection \<open>Events of a running conversion\<close>

datatype event =
    ProcessError string
  | StdoutError string
  | StderrError string
  | StdoutData "8 word list"
  | StdoutEnd
  | StderrData string
  | ForkFinish
  | ForkError string

text \<open>\<open>resolve\<close> and \<open>reject\<close> of a promise: only the first call settles it.\<close>

definition settle :: "failure + success \<Rightarrow> run \<Rightarrow> run" where
  "settle x r = (if settlement r = None then r\<lparr>settlement := Some x\<rparr> else r)"

text \<open>The listeners that \<open>proceed\<close> registers.\<close>

fun proceed_on :: "event \<Rightarrow> run \<times> host \<Rightarrow> run \<times> host" where
  "proceed_on (ProcessError d) (r, h) = (settle (Inl (ProcessFailure d)) r, h)"
| "proceed_on (StdoutError d) (r, h) = (settle (Inl (ProcessFailure d)) r, h)"
| "proceed_on (StderrError d) (r, h) = (settle (Inl (ProcessFailure d)) r, h)"
| "proceed_on (StdoutData d) (r, h) = (r\<lparr>store := store r @ [d]\<rparr>, h)"
| "proceed_on StdoutEnd (r, h) = (settle (Inr (Buffered (concat (store r)))) r, h)"
| "proceed_on (StderrData d) (r, h) = (settle (Inl (Diagnostic d)) r, h)"
| "proceed_on ForkFinish (r, h) = (r, h)"
| "proceed_on (ForkError e) (r, h) = (r, h)"

text \<open>
  The listeners that \<open>pipe\<close> registers. The output stream is piped into the fork, which
  is external: its \<open>finish\<close> and \<open>error\<close> events are events of the run.
\<close>

fun pipe_on :: "event \<Rightarrow> run \<times> host \<Rightarrow> run \<times> host" where
  "pipe_on (ProcessError d) (r, h) = (settle (Inl (ProcessFailure d)) r, h)"
| "pipe_on (StdoutError d) (r, h) = (settle (Inl (ProcessFailure d)) r, h)"
| "pipe_on (StderrError d) (r, h) = (settle (Inl (ProcessFailure d)) r, h)"
| "pipe_on (StdoutData d) (r, h) = (r, h)"
| "pipe_on StdoutEnd (r, h) = (r, h)"
| "pipe_on (StderrData d) (r, h) = (settle (Inl (Diagnostic d)) r, h)"
| "pipe_on ForkFinish (r, h) = (settle (Inr Finished) r, h)"
| "pipe_on (ForkError e) (r, h) = (settle (Inl (SinkFailure e)) r, h)"

text \<open>Delivering a sequence of events, in order.\<close>

definition deliver ::
  "(event \<Rightarrow> run \<times> host \<Rightarrow> run \<times> host) \<Rightarrow> event list \<Rightarrow> run \<times> host \<Rightarrow> run \<times> host" where
  "deliver on evs s = foldl (\<lambda>s ev. on ev s) s evs"

text \<open>
  The host process exits: every registered listener runs. The result lists the
  children that \<open>kill\<close> is called on.
\<close>

definition host_exit :: "host \<Rightarrow> nat list" where
  "host_exit h = exit_hooks h"

text \<open>A buffered conversion from call to the end of a sequence of events.\<close>

definition proceed_then ::
  "(jsval \<Rightarrow> string list \<Rightarrow> string option) \<Rightarrow> options \<Rightarrow> event list \<Rightarrow> host
     \<Rightarrow> started \<times> host" where
  "proceed_then os opts evs h =
     (case proceed os opts h of
        (Rejected f, h1) \<Rightarrow> (Rejected f, h1)
      | (Running r, h1) \<Rightarrow> (case deliver proceed_on evs (r, h1) of (r2, h2) \<Rightarrow> (Running r2, h2)))"

definition pipe_then ::
  "(jsval \<Rightarrow> string list \<Rightarrow> string option) \<Rightarrow> options \<Rightarrow> streams \<Rightarrow> event list \<Rightarrow> host
     \<Rightarrow> started \<times> host" where
  "pipe_then os opts streams evs h =
     (case pipe os opts streams h of
        (Rejected f, h1) \<Rightarrow> (Rejected f, h1)
      | (Running r, h1) \<Rightarrow> (case deliver pipe_on evs (r, h1) of (r2, h2) \<Rightarrow> (Running r2, h2)))"

definition host0 :: host where
  "host0 = \<lparr>spawn_calls = [], exit_hooks = []\<rparr>"

text \<open>An operating system on which no call of \<open>spawn\<close> throws.\<close>

definition spawn_succeeds :: "jsval \<Rightarrow> string list \<Rightarrow> string option" where
  "spawn_succeeds path args = None"

section \<open>Properties of the command builder\<close>

lemma push_attribute_append:
  "push_attribute opts args a = args @ push_attribute opts [] a"
  by (simp add: push_attribute_def Let_def)

lemma foldl_push_attribute:
  "foldl (push_attribute opts) args as = args @ concat (map (push_attribute opts []) as)"
proof (induction as arbitrary: args)
  case Nil
  show ?case by simp
next
  case (Cons a as)
  have "foldl (push_attribute opts) args (a # as)
        = foldl (push_attribute opts) (push_attribute opts args a) as" by simp
  also have "\<dots> = push_attribute opts args a @ concat (map (push_attribute opts []) as)"
    by (rule Cons.IH)
  also have "\<dots> = args @ concat (map (push_attribute opts []) (a # as))"
    using push_attribute_append [of opts args a] by simp
  finally show ?case .
qed

lemma attributeFlagTokens_concat:
  "attributeFlagTokens opts = concat (map (push_attribute opts []) attributesMap)"
  by (simp add: attributeFlagTokens_def foldl_push_attribute)

lemma getArgs_layout:
  "getArgs opts origin result =
     [origin] @ attributeFlagTokens opts
       @ (if resizeFactory opts = [] then [] else [resizeFactory opts]) @ [result]"
  by (simp add: getArgs_def Let_def attributeFlagTokens_concat foldl_push_attribute)

lemma strip_names:
  "strip_trailing_digits ''density'' = ''density''"
  "strip_trailing_digits ''background'' = ''background''"
  "strip_trailing_digits ''gravity'' = ''gravity''"
  "strip_trailing_digits ''quality'' = ''quality''"
  "strip_trailing_digits ''blur'' = ''blur''"
  "strip_trailing_digits ''rotate'' = ''rotate''"
  "strip_trailing_digits ''flip'' = ''flip''"
  "strip_trailing_digits ''alpha'' = ''alpha''"
  "strip_trailing_digits ''clip'' = ''clip''"
  "strip_trailing_digits ''alpha2'' = ''alpha''"
  "strip_trailing_digits ''strip'' = ''strip''"
  by (simp_all add: strip_trailing_digits_def is_digit_def)

lemma string_of_int_small:
  "string_of_int 0 = ''0''" "string_of_int 5 = ''5''" "string_of_int 7 = ''7''"
  "string_of_int 50 = ''50''" "string_of_int 75 = ''75''" "string_of_int 100 = ''100''"
  "string_of_int 600 = ''600''" "string_of_int 200 = ''200''"
  by (simp_all add: string_of_int_def string_of_nat.simps digit_char_def)

lemma getHandle_form:
  "getHandle format name =
     (if truthy format then to_string format @ '':'' else [])
       @ (if truthy name then to_string name else ''-'')"
  by (cases format; cases name) (simp_all add: getHandle_def default_param_def js_or_def)

lemma geometryFactory_form:
  "geometryFactory opts =
     (if truthy (get opts ''width'') \<or> is_zero (get opts ''width'')
      then to_string (get opts ''width'') else [])
     @ (if truthy (get opts ''height'') \<or> is_zero (get opts ''height'')
        then ''x'' @ to_string (get opts ''height'') else [])"
  by (cases "get opts ''width''"; cases "get opts ''height''")
     (simp_all add: geometryFactory_def Let_def)

lemma resizeFactory_form:
  "resizeFactory opts =
     (if \<not> truthy (get opts ''resize'') \<or> geometryFactory opts = [] then []
      else if get opts ''resize'' = JStr ''fit'' then ''-resize '' @ geometryFactory opts
      else if get opts ''resize'' = JStr ''fill'' then ''-resize '' @ geometryFactory opts @ ''!''
      else ''-resize '' @ geometryFactory opts @ ''^ -crop '' @ geometryFactory opts @ ''+0+0!'')"
  by (cases "get opts ''resize''")
     (simp_all add: resizeFactory_def Let_def resizeMap_get_def or_lookup_def RESIZE_DEFAULT_def)

lemmas cfg_eval = Converter_def optionsDefaults_def optionsDefaults_entries_def get_def
  RESIZE_DEFAULT_def rootCmd_def

section \<open>Claims about the command builder\<close>

text \<open>
  C1. With \<open>resize = 'crop'\<close>, \<open>width = 100\<close> and \<open>height = 50\<close> the resize clause is
  exactly \<open>-resize 100x50^ -crop 100x50+0+0!\<close>, whatever the other options are. In
  general, wherever the geometry is not empty, mode \<open>crop\<close> yields
  \<open>-resize g^ -crop g+0+0!\<close>, mode \<open>fit\<close> yields \<open>-resize g\<close> and mode \<open>fill\<close> yields
  \<open>-resize g!\<close>, for the geometry \<open>g\<close>.
\<close>

theorem resize_clause_by_mode:
  "(get opts ''resize'' = JStr ''crop'' \<and> get opts ''width'' = JNum 100
      \<and> get opts ''height'' = JNum 50
    \<longrightarrow> resizeFactory opts = ''-resize 100x50^ -crop 100x50+0+0!'')
   \<and> (geometryFactory opts \<noteq> [] \<longrightarrow>
        (get opts ''resize'' = JStr ''crop'' \<longrightarrow>
           resizeFactory opts
             = ''-resize '' @ geometryFactory opts @ ''^ -crop '' @ geometryFactory opts @ ''+0+0!'')
      \<and> (get opts ''resize'' = JStr ''fit'' \<longrightarrow>
           resizeFactory opts = ''-resize '' @ geometryFactory opts)
      \<and> (get opts ''resize'' = JStr ''fill'' \<longrightarrow>
           resizeFactory opts = ''-resize '' @ geometryFactory opts @ ''!''))"
proof -
  have concrete: "resizeFactory opts = ''-resize 100x50^ -crop 100x50+0+0!''"
    if "get opts ''resize'' = JStr ''crop''" "get opts ''width'' = JNum 100"
       "get opts ''height'' = JNum 50"
  proof -
    have "geometryFactory opts = ''100x50''"
      using that by (simp add: geometryFactory_form string_of_int_small)
    then show ?thesis
      using that by (simp add: resizeFactory_form)
  qed
  have general: "geometryFactory opts \<noteq> [] \<longrightarrow>
        (get opts ''resize'' = JStr ''crop'' \<longrightarrow>
           resizeFactory opts
             = ''-resize '' @ geometryFactory opts @ ''^ -crop '' @ geometryFactory opts @ ''+0+0!'')
      \<and> (get opts ''resize'' = JStr ''fit'' \<longrightarrow>
           resizeFactory opts = ''-resize '' @ geometryFactory opts)
      \<and> (get opts ''resize'' = JStr ''fill'' \<longrightarrow>
           resizeFactory opts = ''-resize '' @ geometryFactory opts @ ''!'')"
    by (simp add: resizeFactory_form)
  from concrete general show ?thesis by blast
qed

theorem resize_clause_by_mode_witness:
  "resizeFactory (Converter ''linux'' [''width'' \<mapsto> JNum 100, ''height'' \<mapsto> JNum 50])
     = ''-resize 100x50^ -crop 100x50+0+0!''
   \<and> resizeFactory (Converter ''linux'' [''width'' \<mapsto> JNum 200, ''resize'' \<mapsto> JStr ''fit''])
     = ''-resize 200''
   \<and> resizeFactory (Converter ''linux'' [''width'' \<mapsto> JNum 200, ''resize'' \<mapsto> JStr ''fill''])
     = ''-resize 200!''"
proof -
  let ?a = "Converter ''linux'' [''width'' \<mapsto> JNum 100, ''height'' \<mapsto> JNum 50]"
  let ?b = "Converter ''linux'' [''width'' \<mapsto> JNum 200, ''resize'' \<mapsto> JStr ''fit'']"
  let ?c = "Converter ''linux'' [''width'' \<mapsto> JNum 200, ''resize'' \<mapsto> JStr ''fill'']"
  have a: "get ?a ''resize'' = JStr ''crop'' \<and> get ?a ''width'' = JNum 100
             \<and> get ?a ''height'' = JNum 50"
    by (simp add: cfg_eval)
  have gb: "geometryFactory ?b = ''200''"
    by (simp add: geometryFactory_form cfg_eval string_of_int_small)
  have gc: "geometryFactory ?c = ''200''"
    by (simp add: geometryFactory_form cfg_eval string_of_int_small)
  have rb: "get ?b ''resize'' = JStr ''fit''" by (simp add: cfg_eval)
  have rc: "get ?c ''resize'' = JStr ''fill''" by (simp add: cfg_eval)
  show ?thesis
    using resize_clause_by_mode [of ?a] resize_clause_by_mode [of ?b]
      resize_clause_by_mode [of ?c] a gb gc rb rc
    by simp
qed

text \<open>
  C2. The built token list is the origin handle, the attribute flag tokens, the resize
  clause if there is one, and the destination handle, in this order. A handle is the
  string form of the format tag, a colon and the name when the tag is truthy, and the
  name alone otherwise; the name is \<open>-\<close> when none is given. So \<open>srcFormat = 'PNG'\<close>
  gives the origin \<open>PNG:-\<close> and \<open>format = 'JPEG'\<close> gives the destination \<open>JPEG:-\<close>.
\<close>

theorem command_layout:
  "command opts =
     [getHandle (get opts ''srcFormat'') JUndefined] @ attributeFlagTokens opts
       @ (if resizeFactory opts = [] then [] else [resizeFactory opts])
       @ [getHandle (get opts ''format'') JUndefined]
   \<and> getArgs opts origin result =
       [origin] @ attributeFlagTokens opts
         @ (if resizeFactory opts = [] then [] else [resizeFactory opts]) @ [result]
   \<and> getHandle format name =
       (if truthy format then to_string format @ '':'' else [])
         @ (if truthy name then to_string name else ''-'')
   \<and> (truthy format \<longrightarrow> getHandle format JUndefined = to_string format @ '':-'')
   \<and> (\<not> truthy format \<longrightarrow> getHandle format JUndefined = ''-'')
   \<and> getHandle (JStr ''PNG'') JUndefined = ''PNG:-''
   \<and> getHandle (JStr ''JPEG'') JUndefined = ''JPEG:-''"
  by (simp add: command_def getArgs_layout getHandle_form)

theorem command_layout_witness:
  "command (Converter ''linux'' [''srcFormat'' \<mapsto> JStr ''PNG'', ''format'' \<mapsto> JStr ''JPEG'',
                                 ''width'' \<mapsto> JNum 200, ''resize'' \<mapsto> JStr ''fit''])
     = [''PNG:-'', ''-density'', ''600'', ''-background'', ''none'', ''-gravity'', ''Center'',
        ''-quality'', ''75'', ''-strip'', ''-resize 200'', ''JPEG:-'']
   \<and> command (Converter ''linux'' Map.empty)
     = [''-'', ''-density'', ''600'', ''-background'', ''none'', ''-gravity'', ''Center'',
        ''-quality'', ''75'', ''-strip'', ''-'']"
proof -
  let ?a = "Converter ''linux'' [''srcFormat'' \<mapsto> JStr ''PNG'', ''format'' \<mapsto> JStr ''JPEG'',
                                 ''width'' \<mapsto> JNum 200, ''resize'' \<mapsto> JStr ''fit'']"
  let ?b = "Converter ''linux'' Map.empty"
  have ta: "attributeFlagTokens ?a = [''-density'', ''600'', ''-background'', ''none'',
              ''-gravity'', ''Center'', ''-quality'', ''75'', ''-strip'']"
    by (simp add: attributeFlagTokens_concat attributesMap_def push_attribute_def cfg_eval
        strip_names string_of_int_small)
  have tb: "attributeFlagTokens ?b = [''-density'', ''600'', ''-background'', ''none'',
              ''-gravity'', ''Center'', ''-quality'', ''75'', ''-strip'']"
    by (simp add: attributeFlagTokens_concat attributesMap_def push_attribute_def cfg_eval
        strip_names string_of_int_small)
  have ra: "resizeFactory ?a = ''-resize 200''"
    by (simp add: resizeFactory_form geometryFactory_form cfg_eval string_of_int_small)
  have rb: "resizeFactory ?b = []"
    by (simp add: resizeFactory_form geometryFactory_form cfg_eval)
  have ha: "get ?a ''srcFormat'' = JStr ''PNG'' \<and> get ?a ''format'' = JStr ''JPEG''"
    by (simp add: cfg_eval)
  have hb: "get ?b ''srcFormat'' = JNull \<and> get ?b ''format'' = JNull"
    by (simp add: cfg_eval)
  have fa: "command ?a = [getHandle (get ?a ''srcFormat'') JUndefined] @ attributeFlagTokens ?a
       @ (if resizeFactory ?a = [] then [] else [resizeFactory ?a])
       @ [getHandle (get ?a ''format'') JUndefined]"
    using command_layout [of ?a] by blast
  have fb: "command ?b = [getHandle (get ?b ''srcFormat'') JUndefined] @ attributeFlagTokens ?b
       @ (if resizeFactory ?b = [] then [] else [resizeFactory ?b])
       @ [getHandle (get ?b ''format'') JUndefined]"
    using command_layout [of ?b] by blast
  have n: "getHandle JNull JUndefined = ''-''"
    using command_layout [of ?b undefined undefined JNull] by simp
  have p: "getHandle (JStr ''PNG'') JUndefined = ''PNG:-''
           \<and> getHandle (JStr ''JPEG'') JUndefined = ''JPEG:-''"
    using command_layout [of ?b] by blast
  show ?thesis
    unfolding fa fb using ta tb ra rb ha hb n p by simp
qed

lemma token_forms:
  "push_attribute opts [] a =
     (if truthy (get opts a) \<or> is_zero (get opts a)
      then (''-'' @ strip_trailing_digits a)
             # (if is_boolean (get opts a) then [] else [to_string (get opts a)])
      else [])"
  by (simp add: push_attribute_def Let_def)

text \<open>
  C3, as stated, fails where the resize mode is unset: with \<open>width = 0\<close>, no height
  and \<open>resize = null\<close> the geometry is \<open>0\<close>, yet \<open>resizeFactory\<close> returns the empty
  string and the command carries no resize clause.
\<close>

theorem width_zero_unset_resize_counterexample:
  "get (Converter ''linux'' [''width'' \<mapsto> JNum 0, ''resize'' \<mapsto> JNull]) ''width'' = JNum 0
   \<and> get (Converter ''linux'' [''width'' \<mapsto> JNum 0, ''resize'' \<mapsto> JNull]) ''height'' = JNull
   \<and> geometryFactory (Converter ''linux'' [''width'' \<mapsto> JNum 0, ''resize'' \<mapsto> JNull]) = ''0''
   \<and> resizeFactory (Converter ''linux'' [''width'' \<mapsto> JNum 0, ''resize'' \<mapsto> JNull]) = []
   \<and> command (Converter ''linux'' [''width'' \<mapsto> JNum 0, ''resize'' \<mapsto> JNull])
       = [''-'', ''-density'', ''600'', ''-background'', ''none'', ''-gravity'', ''Center'',
          ''-quality'', ''75'', ''-strip'', ''-'']"
  by (simp add: command_def getArgs_layout getHandle_form resizeFactory_form
      geometryFactory_form attributeFlagTokens_concat attributesMap_def token_forms cfg_eval
      strip_names string_of_int_small)

text \<open>
  C3, amended. With \<open>width\<close> the number 0 and \<open>height\<close> absent (\<open>null\<close> or \<open>undefined\<close>)
  the geometry is \<open>0\<close>, and a resize clause is emitted whenever the resize mode is
  set (truthy): one of \<open>-resize 0\<close>, \<open>-resize 0!\<close> and \<open>-resize 0^ -crop 0+0+0!\<close>, placed
  right before the destination handle. With \<open>width\<close> and \<open>height\<close> both absent the
  geometry is empty and no resize clause is emitted.
\<close>

theorem width_zero_geometry:
  "(get opts ''width'' = JNum 0 \<and> get opts ''height'' \<in> {JNull, JUndefined} \<longrightarrow>
      geometryFactory opts = ''0''
      \<and> (truthy (get opts ''resize'') \<longrightarrow>
           resizeFactory opts \<in> {''-resize 0'', ''-resize 0!'', ''-resize 0^ -crop 0+0+0!''}
           \<and> getArgs opts origin result
               = [origin] @ attributeFlagTokens opts @ [resizeFactory opts, result]))
   \<and> (get opts ''width'' \<in> {JNull, JUndefined} \<and> get opts ''height'' \<in> {JNull, JUndefined} \<longrightarrow>
        geometryFactory opts = [] \<and> resizeFactory opts = []
        \<and> getArgs opts origin result = [origin] @ attributeFlagTokens opts @ [result])"
proof -
  have zero: "geometryFactory opts = ''0''"
    if "get opts ''width'' = JNum 0" "get opts ''height'' \<in> {JNull, JUndefined}"
    using that by (auto simp add: geometryFactory_form string_of_int_small)
  have clause: "resizeFactory opts \<in> {''-resize 0'', ''-resize 0!'', ''-resize 0^ -crop 0+0+0!''}"
    if "geometryFactory opts = ''0''" "truthy (get opts ''resize'')"
    using that by (simp add: resizeFactory_form)
  have none: "geometryFactory opts = []"
    if "get opts ''width'' \<in> {JNull, JUndefined}" "get opts ''height'' \<in> {JNull, JUndefined}"
    using that by (auto simp add: geometryFactory_form)
  have empty: "resizeFactory opts = []" if "geometryFactory opts = []"
    using that by (simp add: resizeFactory_form)
  have emitted: "getArgs opts origin result
               = [origin] @ attributeFlagTokens opts @ [resizeFactory opts, result]"
    if "resizeFactory opts \<in> {''-resize 0'', ''-resize 0!'', ''-resize 0^ -crop 0+0+0!''}"
    using that by (auto simp add: getArgs_layout)
  have omitted: "getArgs opts origin result = [origin] @ attributeFlagTokens opts @ [result]"
    if "resizeFactory opts = []"
    using that by (simp add: getArgs_layout)
  show ?thesis
    using zero clause none empty emitted omitted by blast
qed

theorem width_zero_geometry_witness:
  "geometryFactory (Converter ''linux'' [''width'' \<mapsto> JNum 0]) = ''0''
   \<and> resizeFactory (Converter ''linux'' [''width'' \<mapsto> JNum 0]) = ''-resize 0^ -crop 0+0+0!''
   \<and> getArgs (Converter ''linux'' [''width'' \<mapsto> JNum 0]) ''-'' ''-''
       = [''-''] @ attributeFlagTokens (Converter ''linux'' [''width'' \<mapsto> JNum 0])
           @ [''-resize 0^ -crop 0+0+0!'', ''-'']
   \<and> geometryFactory (Converter ''linux'' Map.empty) = []
   \<and> resizeFactory (Converter ''linux'' Map.empty) = []
   \<and> getArgs (Converter ''linux'' Map.empty) ''-'' ''-''
       = [''-''] @ attributeFlagTokens (Converter ''linux'' Map.empty) @ [''-'']"
proof -
  let ?a = "Converter ''linux'' [''width'' \<mapsto> JNum 0]"
  let ?b = "Converter ''linux'' Map.empty"
  have a: "get ?a ''width'' = JNum 0 \<and> get ?a ''height'' \<in> {JNull, JUndefined}"
    by (simp add: cfg_eval)
  have ra: "truthy (get ?a ''resize'')" by (simp add: cfg_eval)
  have b: "get ?b ''width'' \<in> {JNull, JUndefined} \<and> get ?b ''height'' \<in> {JNull, JUndefined}"
    by (simp add: cfg_eval)
  have va: "resizeFactory ?a = ''-resize 0^ -crop 0+0+0!''"
    by (simp add: resizeFactory_form geometryFactory_form cfg_eval string_of_int_small)
  have A: "geometryFactory ?a = ''0''
           \<and> getArgs ?a ''-'' ''-'' = [''-''] @ attributeFlagTokens ?a @ [resizeFactory ?a, ''-'']"
    using width_zero_geometry [of ?a "''-''" "''-''"] a ra by blast
  have B: "geometryFactory ?b = [] \<and> resizeFactory ?b = []
           \<and> getArgs ?b ''-'' ''-'' = [''-''] @ attributeFlagTokens ?b @ [''-'']"
    using width_zero_geometry [of ?b "''-''" "''-''"] b by blast
  show ?thesis
    using A B va by simp
qed

lemma tokens_split:
  "attributeFlagTokens opts =
     push_attribute opts [] ''density'' @ push_attribute opts [] ''background''
     @ push_attribute opts [] ''gravity'' @ push_attribute opts [] ''quality''
     @ push_attribute opts [] ''blur'' @ push_attribute opts [] ''rotate''
     @ push_attribute opts [] ''flip'' @ push_attribute opts [] ''alpha''
     @ push_attribute opts [] ''clip'' @ push_attribute opts [] ''alpha2''
     @ push_attribute opts [] ''strip''"
  by (simp add: attributeFlagTokens_concat attributesMap_def)

text \<open>
  C4. With \<open>alpha = 5\<close> and \<open>alpha2 = 7\<close> the attribute \<open>alpha\<close> contributes the tokens
  \<open>-alpha 5\<close> and the attribute \<open>alpha2\<close> contributes \<open>-alpha 7\<close>: the trailing digit is
  stripped from the flag name. Both pairs are in the attribute flag list and in the
  token list that \<open>getArgs\<close> returns, each at the place of its attribute, the first
  before the second, with only the tokens of \<open>clip\<close> between them; so they are in the
  command handed to \<open>spawn\<close>.
\<close>

theorem alpha_and_alpha2_both_emitted:
  assumes "get opts ''alpha'' = JNum 5" and "get opts ''alpha2'' = JNum 7"
  shows "push_attribute opts [] ''alpha'' = [''-alpha'', ''5'']
         \<and> push_attribute opts [] ''alpha2'' = [''-alpha'', ''7'']
         \<and> attributeFlagTokens opts =
             concat (map (push_attribute opts [])
                       [''density'', ''background'', ''gravity'', ''quality'', ''blur'',
                        ''rotate'', ''flip''])
             @ [''-alpha'', ''5''] @ push_attribute opts [] ''clip''
             @ [''-alpha'', ''7''] @ push_attribute opts [] ''strip''
         \<and> sublist [''-alpha'', ''5''] (attributeFlagTokens opts)
         \<and> sublist [''-alpha'', ''7''] (attributeFlagTokens opts)
         \<and> getArgs opts origin result =
             [origin]
             @ concat (map (push_attribute opts [])
                         [''density'', ''background'', ''gravity'', ''quality'', ''blur'',
                          ''rotate'', ''flip''])
             @ [''-alpha'', ''5''] @ push_attribute opts [] ''clip''
             @ [''-alpha'', ''7''] @ push_attribute opts [] ''strip''
             @ (if resizeFactory opts = [] then [] else [resizeFactory opts]) @ [result]
         \<and> sublist [''-alpha'', ''5''] (getArgs opts origin result)
         \<and> sublist [''-alpha'', ''7''] (getArgs opts origin result)
         \<and> sublist [''-alpha'', ''5''] (command opts)
         \<and> sublist [''-alpha'', ''7''] (command opts)"
proof -
  have a: "push_attribute opts [] ''alpha'' = [''-alpha'', ''5'']"
    using assms(1) by (simp add: token_forms strip_names string_of_int_small)
  have b: "push_attribute opts [] ''alpha2'' = [''-alpha'', ''7'']"
    using assms(2) by (simp add: token_forms strip_names string_of_int_small)
  let ?pre = "concat (map (push_attribute opts [])
                       [''density'', ''background'', ''gravity'', ''quality'', ''blur'',
                        ''rotate'', ''flip''])"
  let ?clip = "push_attribute opts [] ''clip''"
  let ?tail = "push_attribute opts [] ''strip''"
  let ?rs = "(if resizeFactory opts = [] then [] else [resizeFactory opts])"
  have eq: "attributeFlagTokens opts =
             ?pre @ [''-alpha'', ''5''] @ ?clip @ [''-alpha'', ''7''] @ ?tail"
    unfolding tokens_split a b by simp
  have s5: "sublist [''-alpha'', ''5''] (attributeFlagTokens opts)"
    unfolding eq by (rule sublist_appendI)
  have "attributeFlagTokens opts =
          (?pre @ [''-alpha'', ''5''] @ ?clip) @ [''-alpha'', ''7''] @ ?tail"
    unfolding eq by simp
  then have s7: "sublist [''-alpha'', ''7''] (attributeFlagTokens opts)"
    by (simp only: sublist_appendI)
  have args: "getArgs opts x y =
             [x] @ ?pre @ [''-alpha'', ''5''] @ ?clip @ [''-alpha'', ''7''] @ ?tail
             @ ?rs @ [y]" for x y
    unfolding getArgs_layout eq by simp
  have in_args: "sublist ts (getArgs opts x y)" if "sublist ts (attributeFlagTokens opts)"
    for ts x y
  proof -
    from that obtain ps ss where "attributeFlagTokens opts = ps @ ts @ ss"
      unfolding sublist_def by blast
    then have "getArgs opts x y = ([x] @ ps) @ ts @ (ss @ ?rs @ [y])"
      unfolding getArgs_layout by simp
    then show ?thesis
      by (simp only: sublist_appendI)
  qed
  have in_command: "sublist ts (command opts)" if "sublist ts (attributeFlagTokens opts)" for ts
    using in_args [OF that] by (simp add: command_def)
  from a b eq s5 s7 args [of origin result] in_args [OF s5] in_args [OF s7]
    in_command [OF s5] in_command [OF s7]
  show ?thesis by blast
qed

theorem alpha_and_alpha2_both_emitted_witness:
  "command (Converter ''linux'' [''alpha'' \<mapsto> JNum 5, ''alpha2'' \<mapsto> JNum 7])
     = [''-'', ''-density'', ''600'', ''-background'', ''none'', ''-gravity'', ''Center'',
        ''-quality'', ''75'', ''-alpha'', ''5'', ''-alpha'', ''7'', ''-strip'', ''-'']
   \<and> attributeFlagTokens (Converter ''linux'' [''alpha'' \<mapsto> JNum 5, ''alpha2'' \<mapsto> JNum 7])
     = [''-density'', ''600'', ''-background'', ''none'', ''-gravity'', ''Center'',
        ''-quality'', ''75'', ''-alpha'', ''5'', ''-alpha'', ''7'', ''-strip'']"
proof -
  let ?a = "Converter ''linux'' [''alpha'' \<mapsto> JNum 5, ''alpha2'' \<mapsto> JNum 7]"
  have h1: "get ?a ''alpha'' = JNum 5" by (simp add: cfg_eval)
  have h2: "get ?a ''alpha2'' = JNum 7" by (simp add: cfg_eval)
  have others: "concat (map (push_attribute ?a [])
                       [''density'', ''background'', ''gravity'', ''quality'', ''blur'',
                        ''rotate'', ''flip''])
                = [''-density'', ''600'', ''-background'', ''none'', ''-gravity'', ''Center'',
                   ''-quality'', ''75'']"
    by (simp add: token_forms cfg_eval strip_names string_of_int_small)
  have c: "push_attribute ?a [] ''clip'' = []" by (simp add: token_forms cfg_eval)
  have s: "push_attribute ?a [] ''strip'' = [''-strip'']"
    by (simp add: token_forms cfg_eval strip_names)
  have r: "resizeFactory ?a = []"
    by (simp add: resizeFactory_form geometryFactory_form cfg_eval)
  have f: "get ?a ''srcFormat'' = JNull" "get ?a ''format'' = JNull"
    by (simp_all add: cfg_eval)
  have hd: "getHandle JNull JUndefined = ''-''"
    by (simp add: getHandle_form)
  have T: "attributeFlagTokens ?a =
             concat (map (push_attribute ?a [])
                       [''density'', ''background'', ''gravity'', ''quality'', ''blur'',
                        ''rotate'', ''flip''])
             @ [''-alpha'', ''5''] @ push_attribute ?a [] ''clip''
             @ [''-alpha'', ''7''] @ push_attribute ?a [] ''strip''"
    using alpha_and_alpha2_both_emitted [OF h1 h2] by blast
  have G: "getArgs ?a ''-'' ''-'' =
             [''-'']
             @ concat (map (push_attribute ?a [])
                         [''density'', ''background'', ''gravity'', ''quality'', ''blur'',
                          ''rotate'', ''flip''])
             @ [''-alpha'', ''5''] @ push_attribute ?a [] ''clip''
             @ [''-alpha'', ''7''] @ push_attribute ?a [] ''strip''
             @ (if resizeFactory ?a = [] then [] else [resizeFactory ?a]) @ [''-'']"
    using alpha_and_alpha2_both_emitted [OF h1 h2, of "''-''" "''-''"] by blast
  have C: "command ?a = getArgs ?a ''-'' ''-''"
    by (simp add: command_def f hd)
  show ?thesis
    unfolding C G T others c s r by simp
qed

text \<open>
  C5. With \<open>flip = true\<close> the attribute \<open>flip\<close> contributes the single token \<open>-flip\<close>,
  and \<open>getArgs\<close> returns it after the tokens of the six attributes before \<open>flip\<close>: what
  follows it in the attribute flag list, if anything, is the flag token of a later
  attribute, not a value, and after the attributes come the resize clause, if any,
  and the destination. With \<open>flip\<close> false or absent the attribute contributes no token,
  and the list that \<open>getArgs\<close> returns is the one built from the other attributes
  alone.
\<close>

theorem flip_flag_without_value:
  "(get opts ''flip'' = JBool True \<longrightarrow>
      push_attribute opts [] ''flip'' = [''-flip'']
      \<and> attributeFlagTokens opts =
          concat (map (push_attribute opts [])
                    [''density'', ''background'', ''gravity'', ''quality'', ''blur'', ''rotate''])
          @ [''-flip'']
          @ concat (map (push_attribute opts []) [''alpha'', ''clip'', ''alpha2'', ''strip''])
      \<and> (case concat (map (push_attribute opts []) [''alpha'', ''clip'', ''alpha2'', ''strip''])
          of [] \<Rightarrow> True
           | t # ts \<Rightarrow> t \<in> {''-alpha'', ''-clip'', ''-strip''})
      \<and> getArgs opts origin result =
          [origin]
          @ concat (map (push_attribute opts [])
                      [''density'', ''background'', ''gravity'', ''quality'', ''blur'', ''rotate''])
          @ [''-flip'']
          @ concat (map (push_attribute opts []) [''alpha'', ''clip'', ''alpha2'', ''strip''])
          @ (if resizeFactory opts = [] then [] else [resizeFactory opts]) @ [result]
      \<and> sublist [''-flip''] (command opts))
   \<and> (get opts ''flip'' \<in> {JBool False, JNull, JUndefined} \<longrightarrow>
        push_attribute opts [] ''flip'' = []
        \<and> attributeFlagTokens opts =
            concat (map (push_attribute opts [])
                      [''density'', ''background'', ''gravity'', ''quality'', ''blur'', ''rotate'',
                       ''alpha'', ''clip'', ''alpha2'', ''strip''])
        \<and> getArgs opts origin result =
            [origin]
            @ concat (map (push_attribute opts [])
                        [''density'', ''background'', ''gravity'', ''quality'', ''blur'', ''rotate'',
                         ''alpha'', ''clip'', ''alpha2'', ''strip''])
            @ (if resizeFactory opts = [] then [] else [resizeFactory opts]) @ [result])"
proof -
  let ?pre = "concat (map (push_attribute opts [])
                    [''density'', ''background'', ''gravity'', ''quality'', ''blur'', ''rotate''])"
  let ?post = "concat (map (push_attribute opts []) [''alpha'', ''clip'', ''alpha2'', ''strip''])"
  let ?rs = "(if resizeFactory opts = [] then [] else [resizeFactory opts])"
  have on: "push_attribute opts [] ''flip'' = [''-flip'']" if "get opts ''flip'' = JBool True"
    using that by (simp add: token_forms strip_names)
  have off: "push_attribute opts [] ''flip'' = []"
    if "get opts ''flip'' \<in> {JBool False, JNull, JUndefined}"
    using that by (auto simp add: token_forms)
  have next_is_flag:
    "(case ?post of [] \<Rightarrow> True | t # ts \<Rightarrow> t \<in> {''-alpha'', ''-clip'', ''-strip''})"
    by (simp add: token_forms strip_names)
  have split_on: "attributeFlagTokens opts = ?pre @ [''-flip''] @ ?post"
    if "push_attribute opts [] ''flip'' = [''-flip'']"
    unfolding tokens_split that by simp
  have split_off: "attributeFlagTokens opts =
            concat (map (push_attribute opts [])
                      [''density'', ''background'', ''gravity'', ''quality'', ''blur'', ''rotate'',
                       ''alpha'', ''clip'', ''alpha2'', ''strip''])"
    if "push_attribute opts [] ''flip'' = []"
    unfolding tokens_split that by simp
  have args_on: "getArgs opts x y = [x] @ ?pre @ [''-flip''] @ ?post @ ?rs @ [y]"
    if "push_attribute opts [] ''flip'' = [''-flip'']" for x y
    unfolding getArgs_layout split_on [OF that] by simp
  have args_off: "getArgs opts origin result =
            [origin]
            @ concat (map (push_attribute opts [])
                        [''density'', ''background'', ''gravity'', ''quality'', ''blur'', ''rotate'',
                         ''alpha'', ''clip'', ''alpha2'', ''strip''])
            @ ?rs @ [result]"
    if "push_attribute opts [] ''flip'' = []"
    unfolding getArgs_layout split_off [OF that] by simp
  have cmd_on: "sublist [''-flip''] (command opts)"
    if f: "push_attribute opts [] ''flip'' = [''-flip'']"
  proof -
    let ?o = "getHandle (get opts ''srcFormat'') JUndefined"
    let ?d = "getHandle (get opts ''format'') JUndefined"
    have "command opts = ([?o] @ ?pre) @ [''-flip''] @ (?post @ ?rs @ [?d])"
      unfolding command_def Let_def args_on [OF f] by simp
    then show ?thesis
      by (simp only: sublist_appendI)
  qed
  show ?thesis
    using on off next_is_flag split_on split_off args_on [of origin result] args_off cmd_on
    by blast
qed

theorem flip_flag_without_value_witness:
  "command (Converter ''linux'' [''flip'' \<mapsto> JBool True, ''alpha'' \<mapsto> JStr ''on''])
     = [''-'', ''-density'', ''600'', ''-background'', ''none'', ''-gravity'', ''Center'',
        ''-quality'', ''75'', ''-flip'', ''-alpha'', ''on'', ''-strip'', ''-'']
   \<and> command (Converter ''linux'' [''alpha'' \<mapsto> JStr ''on''])
     = [''-'', ''-density'', ''600'', ''-background'', ''none'', ''-gravity'', ''Center'',
        ''-quality'', ''75'', ''-alpha'', ''on'', ''-strip'', ''-'']"
proof -
  let ?a = "Converter ''linux'' [''flip'' \<mapsto> JBool True, ''alpha'' \<mapsto> JStr ''on'']"
  let ?b = "Converter ''linux'' [''alpha'' \<mapsto> JStr ''on'']"
  have ha: "get ?a ''flip'' = JBool True" by (simp add: cfg_eval)
  have hb: "get ?b ''flip'' \<in> {JBool False, JNull, JUndefined}" by (simp add: cfg_eval)
  have A: "getArgs ?a ''-'' ''-'' =
          [''-'']
          @ concat (map (push_attribute ?a [])
                    [''density'', ''background'', ''gravity'', ''quality'', ''blur'', ''rotate''])
          @ [''-flip'']
          @ concat (map (push_attribute ?a []) [''alpha'', ''clip'', ''alpha2'', ''strip''])
          @ (if resizeFactory ?a = [] then [] else [resizeFactory ?a]) @ [''-'']"
    using flip_flag_without_value [of ?a "''-''" "''-''"] ha by blast
  have B: "getArgs ?b ''-'' ''-'' =
            [''-'']
            @ concat (map (push_attribute ?b [])
                      [''density'', ''background'', ''gravity'', ''quality'', ''blur'', ''rotate'',
                       ''alpha'', ''clip'', ''alpha2'', ''strip''])
            @ (if resizeFactory ?b = [] then [] else [resizeFactory ?b]) @ [''-'']"
    using flip_flag_without_value [of ?b "''-''" "''-''"] hb by blast
  have ra: "resizeFactory ?a = []"
    by (simp add: resizeFactory_form geometryFactory_form cfg_eval)
  have rb: "resizeFactory ?b = []"
    by (simp add: resizeFactory_form geometryFactory_form cfg_eval)
  have hd: "getHandle JNull JUndefined = ''-''"
    by (simp add: getHandle_form)
  have fa: "get ?a ''srcFormat'' = JNull" "get ?a ''format'' = JNull"
    by (simp_all add: cfg_eval)
  have fb: "get ?b ''srcFormat'' = JNull" "get ?b ''format'' = JNull"
    by (simp_all add: cfg_eval)
  have Ca: "command ?a = getArgs ?a ''-'' ''-''"
    by (simp add: command_def fa hd)
  have Cb: "command ?b = getArgs ?b ''-'' ''-''"
    by (simp add: command_def fb hd)
  have ta: "concat (map (push_attribute ?a [])
                    [''density'', ''background'', ''gravity'', ''quality'', ''blur'', ''rotate''])
            = [''-density'', ''600'', ''-background'', ''none'', ''-gravity'', ''Center'',
               ''-quality'', ''75'']"
    by (simp add: token_forms cfg_eval strip_names string_of_int_small)
  have pa: "concat (map (push_attribute ?a []) [''alpha'', ''clip'', ''alpha2'', ''strip''])
            = [''-alpha'', ''on'', ''-strip'']"
    by (simp add: token_forms cfg_eval strip_names)
  have tb: "concat (map (push_attribute ?b [])
                      [''density'', ''background'', ''gravity'', ''quality'', ''blur'', ''rotate'',
                       ''alpha'', ''clip'', ''alpha2'', ''strip''])
            = [''-density'', ''600'', ''-background'', ''none'', ''-gravity'', ''Center'',
               ''-quality'', ''75'', ''-alpha'', ''on'', ''-strip'']"
    by (simp add: token_forms cfg_eval strip_names string_of_int_small)
  show ?thesis
    unfolding Ca Cb A B ta pa tb ra rb by simp
qed

lemma get_upd_other: "k \<noteq> k' \<Longrightarrow> get (opts(k' \<mapsto> v)) k = get opts k"
  by (simp add: get_def)

lemma get_upd_same: "get (opts(k \<mapsto> v)) k = v"
  by (simp add: get_def)

text \<open>
  C6. Where the resize mode is set (truthy) to a value other than \<open>fit\<close>, \<open>fill\<close> and
  \<open>crop\<close> and the geometry is not empty, the resize clause is the one that the same
  configuration with \<open>resize = 'crop'\<close> gets: \<open>-resize g^ -crop g+0+0!\<close>.
\<close>

theorem unrecognized_resize_falls_back_to_crop:
  assumes "truthy (get opts ''resize'')"
    and "get opts ''resize'' \<notin> {JStr ''fit'', JStr ''fill'', JStr ''crop''}"
    and "geometryFactory opts \<noteq> []"
  shows "resizeFactory opts = resizeFactory (opts(''resize'' \<mapsto> JStr ''crop''))
         \<and> resizeFactory opts
             = ''-resize '' @ geometryFactory opts @ ''^ -crop '' @ geometryFactory opts @ ''+0+0!''"
proof -
  let ?c = "opts(''resize'' \<mapsto> JStr ''crop'')"
  have g: "geometryFactory ?c = geometryFactory opts"
    by (simp add: geometryFactory_form get_upd_other)
  have r: "get ?c ''resize'' = JStr ''crop''"
    by (rule get_upd_same)
  have crop: "resizeFactory ?c
             = ''-resize '' @ geometryFactory opts @ ''^ -crop '' @ geometryFactory opts @ ''+0+0!''"
    using assms(3) by (simp add: resizeFactory_form [of ?c] g r)
  have other: "resizeFactory opts
             = ''-resize '' @ geometryFactory opts @ ''^ -crop '' @ geometryFactory opts @ ''+0+0!''"
    using assms by (simp add: resizeFactory_form [of opts])
  from crop other show ?thesis by simp
qed

theorem unrecognized_resize_falls_back_to_crop_witness:
  "resizeFactory (Converter ''linux'' [''width'' \<mapsto> JNum 100, ''height'' \<mapsto> JNum 50,
                                        ''resize'' \<mapsto> JStr ''stretch''])
     = ''-resize 100x50^ -crop 100x50+0+0!''
   \<and> resizeFactory (Converter ''linux'' [''width'' \<mapsto> JNum 100, ''height'' \<mapsto> JNum 50,
                                        ''resize'' \<mapsto> JNum 7])
     = resizeFactory ((Converter ''linux'' [''width'' \<mapsto> JNum 100, ''height'' \<mapsto> JNum 50,
                                        ''resize'' \<mapsto> JNum 7])(''resize'' \<mapsto> JStr ''crop''))"
proof -
  let ?a = "Converter ''linux'' [''width'' \<mapsto> JNum 100, ''height'' \<mapsto> JNum 50,
                                        ''resize'' \<mapsto> JStr ''stretch'']"
  let ?b = "Converter ''linux'' [''width'' \<mapsto> JNum 100, ''height'' \<mapsto> JNum 50,
                                        ''resize'' \<mapsto> JNum 7]"
  have ga: "geometryFactory ?a = ''100x50''"
    by (simp add: geometryFactory_form cfg_eval string_of_int_small)
  have gb: "geometryFactory ?b = ''100x50''"
    by (simp add: geometryFactory_form cfg_eval string_of_int_small)
  have a1: "truthy (get ?a ''resize'')" by (simp add: cfg_eval)
  have a2: "get ?a ''resize'' \<notin> {JStr ''fit'', JStr ''fill'', JStr ''crop''}"
    by (simp add: cfg_eval)
  have a3: "geometryFactory ?a \<noteq> []" by (simp add: ga)
  have b1: "truthy (get ?b ''resize'')" by (simp add: cfg_eval)
  have b2: "get ?b ''resize'' \<notin> {JStr ''fit'', JStr ''fill'', JStr ''crop''}"
    by (simp add: cfg_eval)
  have b3: "geometryFactory ?b \<noteq> []" by (simp add: gb)
  have A: "resizeFactory ?a
             = ''-resize '' @ geometryFactory ?a @ ''^ -crop '' @ geometryFactory ?a @ ''+0+0!''"
    using unrecognized_resize_falls_back_to_crop [OF a1 a2 a3] by blast
  have A': "resizeFactory ?a = ''-resize 100x50^ -crop 100x50+0+0!''"
    unfolding A ga by simp
  have B: "resizeFactory ?b = resizeFactory (?b(''resize'' \<mapsto> JStr ''crop''))"
    using unrecognized_resize_falls_back_to_crop [OF b1 b2 b3] by blast
  from A' B show ?thesis by blast
qed

section \<open>Claims about the orchestrator\<close>

lemma proceed_on_host: "snd (proceed_on ev s) = snd s"
  by (cases ev; cases s) simp_all

lemma pipe_on_host: "snd (pipe_on ev s) = snd s"
  by (cases ev; cases s) simp_all

lemma deliver_host:
  assumes "\<And>ev s. snd (on ev s) = snd s"
  shows "snd (deliver on evs s) = snd s"
  unfolding deliver_def
proof (induction evs arbitrary: s)
  case Nil
  show ?case by simp
next
  case (Cons ev evs)
  have "snd (foldl (\<lambda>s ev. on ev s) s (ev # evs)) = snd (foldl (\<lambda>s ev. on ev s) (on ev s) evs)"
    by simp
  also have "\<dots> = snd (on ev s)" by (rule Cons.IH)
  also have "\<dots> = snd s" by (rule assms)
  finally show ?case .
qed

lemma proceed_args:
  "getArgs opts (getHandle (get opts ''srcFormat'') JUndefined)
      (getHandle (get opts ''format'') JUndefined) = command opts"
  by (simp add: command_def)

lemma proceed_invalid:
  "\<not> is_buffer (get opts ''srcData'')
     \<Longrightarrow> proceed os opts h = (Rejected (InvalidInput srcData_message), h)"
  by (simp add: proceed_def)

lemma pipe_invalid:
  "\<not> is_buffer (get opts ''srcData'')
     \<Longrightarrow> pipe os opts streams h = (Rejected (InvalidInput srcData_message), h)"
  by (simp add: pipe_def)

lemma is_buffer_truthy: "is_buffer v \<Longrightarrow> truthy v"
  by (cases v) simp_all

lemma proceed_valid:
  assumes "is_buffer (get opts ''srcData'')"
  shows "proceed os opts h =
     (case os (get opts ''path'') (command opts) of
        Some e \<Rightarrow> (Rejected (Caught e),
                   h\<lparr>spawn_calls := spawn_calls h @ [(get opts ''path'', command opts)]\<rparr>)
      | None \<Rightarrow>
          (Running \<lparr>child = length (spawn_calls h),
                    stdin_written = buffer_bytes (get opts ''srcData''), store = [],
                    sinks = [], settlement = None\<rparr>,
           h\<lparr>spawn_calls := spawn_calls h @ [(get opts ''path'', command opts)],
             exit_hooks := exit_hooks h @ [length (spawn_calls h)]\<rparr>))"
  using assms is_buffer_truthy [OF assms]
  by (simp add: proceed_def Let_def proceed_args spawn_def split: option.splits)

lemma pipe_valid:
  assumes "is_buffer (get opts ''srcData'')"
  shows "pipe os opts streams h =
     (case os (get opts ''path'') (command opts) of
        Some e \<Rightarrow> (Rejected (Caught e),
                   h\<lparr>spawn_calls := spawn_calls h @ [(get opts ''path'', command opts)]\<rparr>)
      | None \<Rightarrow>
          (Running \<lparr>child = length (spawn_calls h),
                    stdin_written = buffer_bytes (get opts ''srcData''), store = [],
                    sinks = (case streams of Many ss \<Rightarrow> ss | One s \<Rightarrow> [s]),
                    settlement = None\<rparr>,
           h\<lparr>spawn_calls := spawn_calls h @ [(get opts ''path'', command opts)],
             exit_hooks := exit_hooks h @ [length (spawn_calls h)]\<rparr>))"
  using assms is_buffer_truthy [OF assms]
  by (simp add: pipe_def Let_def proceed_args spawn_def split: option.splits)

text \<open>
  C7. Where \<open>srcData\<close> is not a \<open>Buffer\<close> (absent or of another type), both \<open>proceed\<close>
  and \<open>pipe\<close> reject with the input error and leave the host as it was: no call of
  \<open>spawn\<close> is logged and no listener is registered, whatever the operating system and
  the later events are. The error is the fixed message. Conversely, where \<open>srcData\<close>
  is a \<open>Buffer\<close>, \<open>spawn\<close> is called and the outcome of the call is never the input
  error.
\<close>

theorem invalid_input_rejected_before_spawn:
  "(\<not> is_buffer (get opts ''srcData'') \<longrightarrow>
      proceed os opts h = (Rejected (InvalidInput srcData_message), h)
      \<and> pipe os opts streams h = (Rejected (InvalidInput srcData_message), h)
      \<and> proceed_then os opts evs h = (Rejected (InvalidInput srcData_message), h)
      \<and> pipe_then os opts streams evs h = (Rejected (InvalidInput srcData_message), h))
   \<and> (is_buffer (get opts ''srcData'') \<longrightarrow>
        fst (proceed os opts h) \<noteq> Rejected (InvalidInput m)
        \<and> fst (pipe os opts streams h) \<noteq> Rejected (InvalidInput m)
        \<and> spawn_calls (snd (proceed os opts h))
            = spawn_calls h @ [(get opts ''path'', command opts)]
        \<and> spawn_calls (snd (pipe os opts streams h))
            = spawn_calls h @ [(get opts ''path'', command opts)])"
proof -
  have bad: "proceed os opts h = (Rejected (InvalidInput srcData_message), h)
      \<and> pipe os opts streams h = (Rejected (InvalidInput srcData_message), h)
      \<and> proceed_then os opts evs h = (Rejected (InvalidInput srcData_message), h)
      \<and> pipe_then os opts streams evs h = (Rejected (InvalidInput srcData_message), h)"
    if "\<not> is_buffer (get opts ''srcData'')"
    using that by (simp add: proceed_then_def pipe_then_def proceed_invalid pipe_invalid)
  have good: "fst (proceed os opts h) \<noteq> Rejected (InvalidInput m)
        \<and> fst (pipe os opts streams h) \<noteq> Rejected (InvalidInput m)
        \<and> spawn_calls (snd (proceed os opts h))
            = spawn_calls h @ [(get opts ''path'', command opts)]
        \<and> spawn_calls (snd (pipe os opts streams h))
            = spawn_calls h @ [(get opts ''path'', command opts)]"
    if "is_buffer (get opts ''srcData'')"
    by (simp add: proceed_valid [OF that] pipe_valid [OF that] split: option.splits)
  from bad good show ?thesis by blast
qed

theorem invalid_input_rejected_before_spawn_witness:
  "proceed spawn_succeeds (Converter ''linux'' Map.empty) host0
     = (Rejected (InvalidInput srcData_message), host0)
   \<and> pipe spawn_succeeds (Converter ''linux'' [''srcData'' \<mapsto> JStr ''abc'']) (One 1) host0
     = (Rejected (InvalidInput srcData_message), host0)
   \<and> length (spawn_calls host0) = 0
   \<and> length (spawn_calls (snd (proceed spawn_succeeds
                (Converter ''linux'' [''srcData'' \<mapsto> JBuffer [1, 2, 3]]) host0))) = 1"
proof -
  let ?a = "Converter ''linux'' Map.empty"
  let ?b = "Converter ''linux'' [''srcData'' \<mapsto> JStr ''abc'']"
  let ?c = "Converter ''linux'' [''srcData'' \<mapsto> JBuffer [1, 2, 3]]"
  have a: "\<not> is_buffer (get ?a ''srcData'')" by (simp add: cfg_eval)
  have b: "\<not> is_buffer (get ?b ''srcData'')" by (simp add: cfg_eval)
  have c: "is_buffer (get ?c ''srcData'')" by (simp add: cfg_eval)
  have A: "proceed spawn_succeeds ?a host0 = (Rejected (InvalidInput srcData_message), host0)"
    using invalid_input_rejected_before_spawn [of ?a spawn_succeeds host0] a by blast
  have B: "pipe spawn_succeeds ?b (One 1) host0 = (Rejected (InvalidInput srcData_message), host0)"
    using invalid_input_rejected_before_spawn [of ?b spawn_succeeds host0 "One 1"] b by blast
  have C: "spawn_calls (snd (proceed spawn_succeeds ?c host0))
            = spawn_calls host0 @ [(get ?c ''path'', command ?c)]"
    using invalid_input_rejected_before_spawn [of ?c spawn_succeeds host0] c by blast
  have z: "length (spawn_calls host0) = 0" by (simp add: host0_def)
  from A B show ?thesis unfolding C using z by simp
qed

section \<open>Claims about the configuration\<close>

lemma push_attribute_cong:
  "get a x = get b x \<Longrightarrow> push_attribute a args x = push_attribute b args x"
  by (simp add: push_attribute_def)

lemma attributeFlagTokens_cong:
  assumes "\<forall>x \<in> set attributesMap. get a x = get b x"
  shows "attributeFlagTokens a = attributeFlagTokens b"
proof -
  have "map (push_attribute a []) attributesMap = map (push_attribute b []) attributesMap"
  proof (rule map_cong [OF refl])
    fix x assume "x \<in> set attributesMap"
    with assms have "get a x = get b x" by blast
    then show "push_attribute a [] x = push_attribute b [] x"
      by (rule push_attribute_cong)
  qed
  then show ?thesis
    by (simp only: attributeFlagTokens_concat)
qed

lemma geometryFactory_cong:
  "get a ''width'' = get b ''width'' \<Longrightarrow> get a ''height'' = get b ''height''
     \<Longrightarrow> geometryFactory a = geometryFactory b"
  by (simp only: geometryFactory_def)

lemma resizeFactory_cong:
  "get a ''resize'' = get b ''resize'' \<Longrightarrow> geometryFactory a = geometryFactory b
     \<Longrightarrow> resizeFactory a = resizeFactory b"
  by (simp only: resizeFactory_def)

lemma command_depends_on_builder_keys:
  assumes "\<forall>k \<in> set builder_keys. get a k = get b k"
  shows "command a = command b"
proof -
  have attrs: "\<forall>x \<in> set attributesMap. get a x = get b x"
    using assms by (simp add: builder_keys_def)
  have k: "get a ''srcFormat'' = get b ''srcFormat''" "get a ''format'' = get b ''format''"
    "get a ''width'' = get b ''width''" "get a ''height'' = get b ''height''"
    "get a ''resize'' = get b ''resize''"
    using assms by (simp_all add: builder_keys_def)
  have g: "geometryFactory a = geometryFactory b"
    using k(3) k(4) by (rule geometryFactory_cong)
  have r: "resizeFactory a = resizeFactory b"
    using k(5) g by (rule resizeFactory_cong)
  have t: "attributeFlagTokens a = attributeFlagTokens b"
    using attrs by (rule attributeFlagTokens_cong)
  show ?thesis
    by (simp only: command_def getArgs_layout r t k(1) k(2))
qed

text \<open>
  C8. Two records of caller options that agree on every name the command builder
  reads (the two format names, \<open>width\<close>, \<open>height\<close>, \<open>resize\<close> and the attribute set)
  yield the same token list, however they differ on all other names.
\<close>

theorem unknown_options_are_inert:
  assumes "\<forall>k \<in> set builder_keys. caller1 k = caller2 k"
  shows "command (Converter platform caller1) = command (Converter platform caller2)"
proof (rule command_depends_on_builder_keys)
  show "\<forall>k \<in> set builder_keys.
          get (Converter platform caller1) k = get (Converter platform caller2) k"
    using assms by (simp add: get_def Converter_def map_add_def)
qed

theorem unknown_options_are_inert_witness:
  "command (Converter ''linux'' [''width'' \<mapsto> JNum 100, ''verbose'' \<mapsto> JBool True,
                                 ''monochrome'' \<mapsto> JStr ''-evil''])
   = command (Converter ''linux'' [''width'' \<mapsto> JNum 100, ''colors'' \<mapsto> JNum 2])"
proof -
  have h: "\<forall>k \<in> set builder_keys.
             [''width'' \<mapsto> JNum 100, ''verbose'' \<mapsto> JBool True, ''monochrome'' \<mapsto> JStr ''-evil''] k
             = [''width'' \<mapsto> JNum 100, ''colors'' \<mapsto> JNum 2] k"
    by (simp add: builder_keys_def attributesMap_def)
  show ?thesis
    by (rule unknown_options_are_inert [OF h])
qed

section \<open>Claims about the exit listeners\<close>

lemma proceed_then_host:
  assumes "is_buffer (get opts ''srcData'')" and "os (get opts ''path'') (command opts) = None"
  shows "snd (proceed_then os opts evs h)
           = h\<lparr>spawn_calls := spawn_calls h @ [(get opts ''path'', command opts)],
               exit_hooks := exit_hooks h @ [length (spawn_calls h)]\<rparr>"
proof -
  let ?r = "\<lparr>child = length (spawn_calls h),
             stdin_written = buffer_bytes (get opts ''srcData''), store = [],
             sinks = [], settlement = None\<rparr>"
  let ?h = "h\<lparr>spawn_calls := spawn_calls h @ [(get opts ''path'', command opts)],
               exit_hooks := exit_hooks h @ [length (spawn_calls h)]\<rparr>"
  have start: "proceed os opts h = (Running ?r, ?h)"
    by (simp add: proceed_valid [OF assms(1)] assms(2))
  have kept: "snd (deliver proceed_on evs (?r, ?h)) = ?h"
    using deliver_host [of proceed_on evs "(?r, ?h)"] proceed_on_host by simp
  obtain r2 h2 where d: "deliver proceed_on evs (?r, ?h) = (r2, h2)"
    by (cases "deliver proceed_on evs (?r, ?h)")
  from kept d have "h2 = ?h" by simp
  then show ?thesis
    by (simp add: proceed_then_def start d)
qed

lemma pipe_then_host:
  assumes "is_buffer (get opts ''srcData'')" and "os (get opts ''path'') (command opts) = None"
  shows "snd (pipe_then os opts streams evs h)
           = h\<lparr>spawn_calls := spawn_calls h @ [(get opts ''path'', command opts)],
               exit_hooks := exit_hooks h @ [length (spawn_calls h)]\<rparr>"
proof -
  let ?r = "\<lparr>child = length (spawn_calls h),
             stdin_written = buffer_bytes (get opts ''srcData''), store = [],
             sinks = (case streams of Many ss \<Rightarrow> ss | One s \<Rightarrow> [s]), settlement = None\<rparr>"
  let ?h = "h\<lparr>spawn_calls := spawn_calls h @ [(get opts ''path'', command opts)],
               exit_hooks := exit_hooks h @ [length (spawn_calls h)]\<rparr>"
  have start: "pipe os opts streams h = (Running ?r, ?h)"
    by (simp add: pipe_valid [OF assms(1)] assms(2))
  have kept: "snd (deliver pipe_on evs (?r, ?h)) = ?h"
    using deliver_host [of pipe_on evs "(?r, ?h)"] pipe_on_host by simp
  obtain r2 h2 where d: "deliver pipe_on evs (?r, ?h) = (r2, h2)"
    by (cases "deliver pipe_on evs (?r, ?h)")
  from kept d have "h2 = ?h" by simp
  then show ?thesis
    by (simp add: pipe_then_def start d)
qed

lemma default_command:
  "command (Converter ''linux'' [''srcData'' \<mapsto> JBuffer [1, 2, 3]])
     = [''-'', ''-density'', ''600'', ''-background'', ''none'', ''-gravity'', ''Center'',
        ''-quality'', ''75'', ''-strip'', ''-'']"
  by (simp add: command_def getArgs_layout getHandle_form resizeFactory_form
      geometryFactory_form attributeFlagTokens_concat attributesMap_def push_attribute_def
      cfg_eval strip_names string_of_int_small)

lemma default_valid:
  "is_buffer (get (Converter ''linux'' [''srcData'' \<mapsto> JBuffer [1, 2, 3]]) ''srcData'')"
  "get (Converter ''linux'' [''srcData'' \<mapsto> JBuffer [1, 2, 3]]) ''srcData'' = JBuffer [1, 2, 3]"
  "get (Converter ''linux'' [''srcData'' \<mapsto> JBuffer [1, 2, 3]]) ''path'' = JStr ''convert''"
  by (simp_all add: cfg_eval)

text \<open>
  C9, as stated, fails: no listener of \<open>proceed\<close> or \<open>pipe\<close> removes or changes the
  exit listener. A buffered conversion that is rejected by diagnostic output, and one
  that resolves with its bytes, both leave the listener of their child registered, so
  that \<open>kill\<close> is still called on that child when the host exits; a second conversion
  adds a second listener.
\<close>

theorem exit_hook_after_settlement_counterexample:
  "proceed_then spawn_succeeds (Converter ''linux'' [''srcData'' \<mapsto> JBuffer [1, 2, 3]])
      [StderrData ''boom''] host0
     = (Running \<lparr>child = 0, stdin_written = [1, 2, 3], store = [], sinks = [],
                  settlement = Some (Inl (Diagnostic ''boom''))\<rparr>,
        \<lparr>spawn_calls =
            [(JStr ''convert'',
              [''-'', ''-density'', ''600'', ''-background'', ''none'', ''-gravity'', ''Center'',
               ''-quality'', ''75'', ''-strip'', ''-''])],
          exit_hooks = [0]\<rparr>)
   \<and> proceed_then spawn_succeeds (Converter ''linux'' [''srcData'' \<mapsto> JBuffer [1, 2, 3]])
      [StdoutData [7], StdoutEnd] host0
     = (Running \<lparr>child = 0, stdin_written = [1, 2, 3], store = [[7]], sinks = [],
                  settlement = Some (Inr (Buffered [7]))\<rparr>,
        \<lparr>spawn_calls =
            [(JStr ''convert'',
              [''-'', ''-density'', ''600'', ''-background'', ''none'', ''-gravity'', ''Center'',
               ''-quality'', ''75'', ''-strip'', ''-''])],
          exit_hooks = [0]\<rparr>)
   \<and> host_exit (snd (proceed_then spawn_succeeds
         (Converter ''linux'' [''srcData'' \<mapsto> JBuffer [1, 2, 3]]) [StderrData ''boom''] host0))
     = [0]
   \<and> exit_hooks (snd (pipe_then spawn_succeeds
         (Converter ''linux'' [''srcData'' \<mapsto> JBuffer [1, 2, 3]]) (One 5) [ForkFinish]
         (snd (proceed_then spawn_succeeds
            (Converter ''linux'' [''srcData'' \<mapsto> JBuffer [1, 2, 3]]) [StderrData ''boom'']
            host0))))
     = [0, 1]"
proof -
  let ?c = "Converter ''linux'' [''srcData'' \<mapsto> JBuffer [1, 2, 3]]"
  have start: "proceed spawn_succeeds ?c host0
     = (Running \<lparr>child = 0, stdin_written = [1, 2, 3], store = [], sinks = [],
                  settlement = None\<rparr>,
        \<lparr>spawn_calls =
            [(JStr ''convert'',
              [''-'', ''-density'', ''600'', ''-background'', ''none'', ''-gravity'', ''Center'',
               ''-quality'', ''75'', ''-strip'', ''-''])],
          exit_hooks = [0]\<rparr>)"
    using default_valid(1)
    by (simp add: proceed_valid default_valid(2,3) default_command
        spawn_succeeds_def host0_def buffer_bytes_def)
  have one: "proceed_then spawn_succeeds ?c [StderrData ''boom''] host0
     = (Running \<lparr>child = 0, stdin_written = [1, 2, 3], store = [], sinks = [],
                  settlement = Some (Inl (Diagnostic ''boom''))\<rparr>,
        \<lparr>spawn_calls =
            [(JStr ''convert'',
              [''-'', ''-density'', ''600'', ''-background'', ''none'', ''-gravity'', ''Center'',
               ''-quality'', ''75'', ''-strip'', ''-''])],
          exit_hooks = [0]\<rparr>)"
    by (simp add: proceed_then_def start deliver_def settle_def)
  have two: "proceed_then spawn_succeeds ?c [StdoutData [7], StdoutEnd] host0
     = (Running \<lparr>child = 0, stdin_written = [1, 2, 3], store = [[7]], sinks = [],
                  settlement = Some (Inr (Buffered [7]))\<rparr>,
        \<lparr>spawn_calls =
            [(JStr ''convert'',
              [''-'', ''-density'', ''600'', ''-background'', ''none'', ''-gravity'', ''Center'',
               ''-quality'', ''75'', ''-strip'', ''-''])],
          exit_hooks = [0]\<rparr>)"
    by (simp add: proceed_then_def start deliver_def settle_def)
  have three: "exit_hooks (snd (pipe_then spawn_succeeds ?c (One 5) [ForkFinish]
         (snd (proceed_then spawn_succeeds ?c [StderrData ''boom''] host0)))) = [0, 1]"
    unfolding one
    using default_valid(1)
    by (simp add: pipe_then_def pipe_valid default_valid(2,3) default_command
        spawn_succeeds_def buffer_bytes_def deliver_def settle_def)
  show ?thesis
    unfolding one two using three by (simp add: host_exit_def one)
qed

text \<open>
  C9, amended. Every conversion that passes the input check and whose \<open>spawn\<close> does
  not throw registers one exit listener for its child, and the listener stays
  registered whatever events follow, settling or not: the listeners of the host are
  those it had before and the new one, in this order.
\<close>

theorem exit_hook_stays_registered:
  assumes "is_buffer (get opts ''srcData'')" and "os (get opts ''path'') (command opts) = None"
  shows "exit_hooks (snd (proceed_then os opts evs h))
           = exit_hooks h @ [length (spawn_calls h)]
         \<and> exit_hooks (snd (pipe_then os opts streams evs h))
           = exit_hooks h @ [length (spawn_calls h)]
         \<and> host_exit (snd (proceed_then os opts evs h))
           = host_exit h @ [length (spawn_calls h)]
         \<and> host_exit (snd (pipe_then os opts streams evs h))
           = host_exit h @ [length (spawn_calls h)]"
  using assms by (simp add: proceed_then_host pipe_then_host host_exit_def)

theorem exit_hook_stays_registered_witness:
  "exit_hooks (snd (proceed_then spawn_succeeds
      (Converter ''linux'' [''srcData'' \<mapsto> JBuffer [1, 2, 3]])
      [StdoutData [7], StdoutEnd] host0)) = [0]
   \<and> host_exit (snd (pipe_then spawn_succeeds
      (Converter ''linux'' [''srcData'' \<mapsto> JBuffer [1, 2, 3]]) (Many [1, 2])
      [ForkFinish] host0)) = [0]"
proof -
  let ?c = "Converter ''linux'' [''srcData'' \<mapsto> JBuffer [1, 2, 3]]"
  have ok: "spawn_succeeds (get ?c ''path'') (command ?c) = None"
    by (simp add: spawn_succeeds_def)
  have z: "exit_hooks host0 = [] \<and> host_exit host0 = [] \<and> length (spawn_calls host0) = 0"
    by (simp add: host0_def host_exit_def)
  have A: "exit_hooks (snd (proceed_then spawn_succeeds ?c [StdoutData [7], StdoutEnd] host0))
             = exit_hooks host0 @ [length (spawn_calls host0)]"
    using exit_hook_stays_registered [where opts = ?c and os = spawn_succeeds and h = host0
        and evs = "[StdoutData [7], StdoutEnd]"] default_valid(1) ok
    by blast
  have B: "host_exit (snd (pipe_then spawn_succeeds ?c (Many [1, 2]) [ForkFinish] host0))
             = host_exit host0 @ [length (spawn_calls host0)]"
    using exit_hook_stays_registered [where opts = ?c and os = spawn_succeeds and h = host0
        and evs = "[ForkFinish]" and streams = "Many [1, 2]"] default_valid(1) ok
    by blast
  show ?thesis
    unfolding A B by (simp add: z)
qed

section \<open>Claims about the defaults\<close>

text \<open>
  C10. Where the caller's record has none of the names \<open>density\<close>, \<open>background\<close>,
  \<open>gravity\<close> and \<open>quality\<close>, the attribute flag list starts with
  \<open>-density 600 -background none -gravity Center -quality 75\<close>, and these eight tokens
  follow the origin handle in the command.
\<close>

theorem defaults_are_always_passed:
  assumes "caller ''density'' = None" and "caller ''background'' = None"
    and "caller ''gravity'' = None" and "caller ''quality'' = None"
  shows "attributeFlagTokens (Converter platform caller)
           = [''-density'', ''600'', ''-background'', ''none'', ''-gravity'', ''Center'',
              ''-quality'', ''75'']
             @ concat (map (push_attribute (Converter platform caller) [])
                         [''blur'', ''rotate'', ''flip'', ''alpha'', ''clip'', ''alpha2'', ''strip''])
         \<and> take 9 (command (Converter platform caller))
           = [getHandle (get (Converter platform caller) ''srcFormat'') JUndefined,
              ''-density'', ''600'', ''-background'', ''none'', ''-gravity'', ''Center'',
              ''-quality'', ''75'']"
proof -
  let ?o = "Converter platform caller"
  have d: "get ?o ''density'' = JNum 600" "get ?o ''background'' = JStr ''none''"
    "get ?o ''gravity'' = JStr ''Center''" "get ?o ''quality'' = JNum 75"
    using assms by (simp_all add: cfg_eval map_add_def)
  have p: "push_attribute ?o [] ''density'' = [''-density'', ''600'']"
    "push_attribute ?o [] ''background'' = [''-background'', ''none'']"
    "push_attribute ?o [] ''gravity'' = [''-gravity'', ''Center'']"
    "push_attribute ?o [] ''quality'' = [''-quality'', ''75'']"
    by (simp_all add: token_forms d strip_names string_of_int_small)
  have t: "attributeFlagTokens ?o
           = [''-density'', ''600'', ''-background'', ''none'', ''-gravity'', ''Center'',
              ''-quality'', ''75'']
             @ concat (map (push_attribute ?o [])
                         [''blur'', ''rotate'', ''flip'', ''alpha'', ''clip'', ''alpha2'', ''strip''])"
    unfolding tokens_split p by simp
  have c: "take 9 (command ?o)
           = [getHandle (get ?o ''srcFormat'') JUndefined,
              ''-density'', ''600'', ''-background'', ''none'', ''-gravity'', ''Center'',
              ''-quality'', ''75'']"
    unfolding command_def Let_def getArgs_layout t by simp
  from t c show ?thesis by blast
qed

theorem defaults_are_always_passed_witness:
  "attributeFlagTokens (Converter ''win32'' [''strip'' \<mapsto> JBool False, ''rotate'' \<mapsto> JNum 0])
     = [''-density'', ''600'', ''-background'', ''none'', ''-gravity'', ''Center'',
        ''-quality'', ''75'', ''-rotate'', ''0'']"
proof -
  let ?c = "[''strip'' \<mapsto> JBool False, ''rotate'' \<mapsto> JNum 0]"
  have h: "?c ''density'' = None" "?c ''background'' = None" "?c ''gravity'' = None"
    "?c ''quality'' = None"
    by simp_all
  have rest: "concat (map (push_attribute (Converter ''win32'' ?c) [])
                         [''blur'', ''rotate'', ''flip'', ''alpha'', ''clip'', ''alpha2'', ''strip''])
              = [''-rotate'', ''0'']"
    by (simp add: token_forms cfg_eval strip_names string_of_int_small)
  have T: "attributeFlagTokens (Converter ''win32'' ?c)
           = [''-density'', ''600'', ''-background'', ''none'', ''-gravity'', ''Center'',
              ''-quality'', ''75'']
             @ concat (map (push_attribute (Converter ''win32'' ?c) [])
                         [''blur'', ''rotate'', ''flip'', ''alpha'', ''clip'', ''alpha2'', ''strip''])"
    using defaults_are_always_passed [OF h, of "''win32''"] by blast
  show ?thesis
    unfolding T rest by simp
qed

end
